theory Spec2Isabelle
  imports Complex_Main "HOL-Library.Sublist"
begin

section \<open>Python strings\<close>

text \<open>
  A Python \<^verbatim>\<open>str\<close> is modelled as a HOL \<^typ>\<open>string\<close>: a \<^typ>\<open>char\<close> stands for
  the code point of the same number, so the model covers the texts whose code points
  are below 256 (ASCII and Latin-1, which holds the Norwegian letters). Length and
  indexing count code points, as Python does. \<^verbatim>\<open>kw in text\<close> is \<^term>\<open>sublist kw text\<close>.

  \<^verbatim>\<open>str.isspace\<close>, which \<^verbatim>\<open>str.strip()\<close> and the pattern \<^verbatim>\<open>\s\<close> use, holds below 256 for
  the code points 9 to 13, 28 to 32, 133 and 160.
\<close>

definition py_isspace :: "char \<Rightarrow> bool" where
  "py_isspace c = (of_char c \<in> {9, 10, 11, 12, 13, 28, 29, 30, 31, 32, 133, 160 :: nat})"

text \<open>
  \<^verbatim>\<open>str.lower()\<close>: below 256 the upper-case letters are A to Z (65 to 90) and the
  Latin-1 capitals 192 to 222 without the multiplication sign 215; each is 32 below its
  lower-case letter, which differs from it in bit 5 alone.
\<close>

definition py_isupper :: "char \<Rightarrow> bool" where
  "py_isupper c =
     (let n = of_char c :: nat
      in (65 \<le> n \<and> n \<le> 90) \<or> (192 \<le> n \<and> n \<le> 222 \<and> n \<noteq> 215))"

fun set_bit5 :: "char \<Rightarrow> char" where
  "set_bit5 (Char b0 b1 b2 b3 b4 b5 b6 b7) = Char b0 b1 b2 b3 b4 True b6 b7"

definition py_lower_char :: "char \<Rightarrow> char" where
  "py_lower_char c = (if py_isupper c then set_bit5 c else c)"

definition py_lower :: "string \<Rightarrow> string" where
  "py_lower s = map py_lower_char s"

text \<open>\<^verbatim>\<open>text.strip()\<close> and \<^verbatim>\<open>re.sub(r'\s+', ' ', text)\<close>.\<close>

definition py_strip :: "string \<Rightarrow> string" where
  "py_strip s = rev (dropWhile py_isspace (rev (dropWhile py_isspace s)))"

text \<open>Every maximal run of whitespace becomes one space: the flag says that the
  character before was whitespace, so the run's space is already written.\<close>

fun collapse_run :: "bool \<Rightarrow> string \<Rightarrow> string" where
  "collapse_run in_run [] = []"
| "collapse_run in_run (c # cs) =
     (if py_isspace c then
        (if in_run then collapse_run True cs else CHR '' '' # collapse_run True cs)
      else c # collapse_run False cs)"

definition collapse_ws :: "string \<Rightarrow> string" where
  "collapse_ws s = collapse_run False s"

text \<open>
  \<^verbatim>\<open>_clean_text\<close> (unified_parser.py):
  \<^verbatim>\<open>return re.sub(r'\s+', ' ', text.strip()) if text else ""\<close>
\<close>

definition clean_text :: "string \<Rightarrow> string" where
  "clean_text t = (if t = [] then [] else collapse_ws (py_strip t))"



lemma py_lower_append: "py_lower (a @ b) = py_lower a @ py_lower b"
  by (simp add: py_lower_def)

lemma sublist_py_lower:
  "sublist w t \<Longrightarrow> sublist (py_lower w) (py_lower t)"
proof -
  assume "sublist w t"
  then obtain ps ss where "t = ps @ w @ ss" by (auto simp: sublist_def)
  then have "py_lower t = py_lower ps @ py_lower w @ py_lower ss"
    by (simp add: py_lower_append)
  then show ?thesis unfolding sublist_def by blast
qed

section \<open>Fetcher: \<^verbatim>\<open>_fetch_with_retry\<close> (unified_parser.py) and \<^verbatim>\<open>_fetch_page\<close> (main.py)\<close>

text \<open>
  Both functions have the same body:
  \<^verbatim>\<open>
  for attempt in range(max_retries):
      try:
          async with self.session.get(url, allow_redirects=True) as response:
              if response.status == 200:
                  content = await response.text()
                  return content
              else:
                  logger.warning(...)
      except asyncio.TimeoutError:
          logger.warning(...)
      except Exception as e:
          logger.error(...)
      if attempt < max_retries - 1:
          await asyncio.sleep(2 ** attempt)
  return None
  \<close>
  The network is the environment: a function from the attempt number to what the
  GET of that attempt does. An attempt either raises (a timeout or any other
  \<^verbatim>\<open>Exception\<close>) or yields a response with a status and a body whose reading may
  raise as well. The sleeps are recorded in a trace, in seconds, next to the GETs.

  An exception of the model is an instance of \<^verbatim>\<open>Exception\<close>, which every handler of the
  sources catches (\<^verbatim>\<open>except Exception\<close>, or a bare \<^verbatim>\<open>except\<close>); cancellation and
  interpreter exit are outside the model.
\<close>

datatype py_exn = TimeoutError | TypeError | ValueError | KeyError | OtherException



datatype event = Get nat | Sleep nat




fun gets :: "event list \<Rightarrow> nat list" where
  "gets [] = []"
| "gets (Get i # es) = i # gets es"
| "gets (Sleep s # es) = gets es"

fun sleeps :: "event list \<Rightarrow> nat list" where
  "sleeps [] = []"
| "sleeps (Get i # es) = sleeps es"
| "sleeps (Sleep s # es) = s # sleeps es"


lemma gets_append: "gets (xs @ ys) = gets xs @ gets ys"
  by (induction xs rule: gets.induct) simp_all

lemma sleeps_append: "sleeps (xs @ ys) = sleeps xs @ sleeps ys"
  by (induction xs rule: sleeps.induct) simp_all











section \<open>Structure Analyzer: plan containers\<close>

text \<open>
  The parsed page is the environment. \<^verbatim>\<open>soup.select(pattern)\<close> yields the matched
  elements in document order or raises; an element is what the analyzers read of it:
  its text (\<^verbatim>\<open>get_text()\<close>), tag name, classes, id and style.

  Two files list candidate containers. several_site_analyzer.py (\<^verbatim>\<open>analyze_page\<close>)
  lists them without a score. unified_parser.py (\<^verbatim>\<open>_analyze_plan_containers\<close>) scores
  and ranks them; that file writes its comments with \<^verbatim>\<open>//\<close> (line 15 and 25 more lines),
  which Python refuses, so as it stands it does not compile and none of its functions
  can be called. The model of its functions reads those lines as the comments they are
  meant to be.
\<close>

record element =
  get_text :: string
  tag_name :: string
  classes :: "string list"
  elem_id :: string
  style :: string

type_synonym soup = "string \<Rightarrow> py_exn + element list"

subsection \<open>Python floats\<close>

text \<open>
  A Python float is an IEEE 754 binary64 number: a value of the model is the rational
  the float stands for. Every operation gives the exact result rounded to the nearest
  float, a tie going to the even significand. \<open>binade\<close> finds the exponent \<open>e\<close> with
  \<open>2 ^ e \<le> x < 2 ^ (e + 1)\<close>, in at most as many steps as the format has exponents;
  the significand has 53 bits, so the floats of that binade are the multiples of
  \<open>2 ^ (e - 52)\<close>. Overflow and subnormal numbers are outside the model: the values of
  the analyzer lie between 0 and 3.
\<close>

definition pow2 :: "int \<Rightarrow> rat" where
  "pow2 e = (if 0 \<le> e then 2 ^ nat e else 1 / 2 ^ nat (- e))"

fun binade :: "nat \<Rightarrow> rat \<Rightarrow> int" where
  "binade 0 x = 0"
| "binade (Suc n) x =
     (if 2 \<le> x then binade n (x / 2) + 1 else if x < 1 then binade n (x * 2) - 1 else 0)"

definition round_half_even :: "rat \<Rightarrow> int" where
  "round_half_even x =
     (let f = \<lfloor>x\<rfloor>; d = x - of_int f
      in if d < 1 / 2 then f else if 1 / 2 < d then f + 1 else if even f then f else f + 1)"

definition round_double :: "rat \<Rightarrow> rat" where
  "round_double x =
     (if x = 0 then 0
      else (let e = binade 1100 \<bar>x\<bar>; u = pow2 (e - 52)
            in sgn x * of_int (round_half_even (\<bar>x\<bar> / u)) * u))"

text \<open>\<^verbatim>\<open>a / b\<close> and \<^verbatim>\<open>a + b\<close> on floats (an \<^verbatim>\<open>int\<close> operand of this size converts exactly).\<close>

definition fdiv :: "rat \<Rightarrow> rat \<Rightarrow> rat" where
  "fdiv a b = round_double (a / b)"

definition fadd :: "rat \<Rightarrow> rat \<Rightarrow> rat" where
  "fadd a b = round_double (a + b)"

subsection \<open>The scored analyzer of unified_parser.py\<close>

text \<open>
  \<^verbatim>\<open>
  def _calculate_container_confidence(self, elements):
      if not elements:
          return 0.0
      confidence = 0.0
      keywords = ['kr', 'gb', 'plan', 'mobil', 'abonnement', 'maaned']  (a-ring, one letter)
      for elem in elements[:3]:
          text = elem.get_text().lower()
          keyword_matches = sum(1 for keyword in keywords if keyword in text)
          confidence += keyword_matches / len(keywords)
      return confidence / min(len(elements), 3)
  \<close>
\<close>

text \<open>The source's local list \<^verbatim>\<open>keywords\<close>; the last word has the letter a-ring (code point 229).\<close>

definition domain_keywords :: "string list" where
  "domain_keywords = [''kr'', ''gb'', ''plan'', ''mobil'', ''abonnement'', [CHR ''m'', CHR 0xE5, CHR ''n'', CHR ''e'', CHR ''d'']]"

definition keyword_matches :: "string \<Rightarrow> nat" where
  "keyword_matches t = length (filter (\<lambda>keyword. sublist keyword t) domain_keywords)"

definition calculate_container_confidence :: "element list \<Rightarrow> rat" where
  "calculate_container_confidence elements =
     (if elements = [] then 0
      else fdiv
             (fold (\<lambda>elem confidence.
                      fadd confidence
                        (fdiv (of_nat (keyword_matches (py_lower (get_text elem))))
                              (of_nat (length domain_keywords))))
                (take 3 elements) 0)
             (of_nat (min (length elements) 3)))"

text \<open>
  \<^verbatim>\<open>
  def _analyze_plan_containers(self, soup):
      containers = []
      container_patterns = [...]
      for pattern in container_patterns:
          try:
              elements = soup.select(pattern)
              if len(elements) >= 2:  (comment: at least 2 elements to be valid)
                  sample_text = elements[0].get_text()[:100] if elements else ""
                  containers.append({'selector': pattern, 'count': len(elements),
                      'sample_text': sample_text,
                      'confidence': self._calculate_container_confidence(elements)})
          except:
              continue
      return sorted(containers, key=lambda x: x['confidence'], reverse=True)
  \<close>
\<close>

record container =
  selector :: string
  count :: nat
  sample_text :: string
  confidence :: rat

definition container_patterns :: "string list" where
  \<open>container_patterns =
     [''.plan'', ''.product'', ''.card'', ''.subscription'', ''.abonnement'',
      ''.offer'', ''.package'', ''.tariff'', ''[class*="plan"]'',
      ''[class*="product"]'', ''[class*="subscription"]'']\<close>

fun collect_containers :: "soup \<Rightarrow> string list \<Rightarrow> container list \<Rightarrow> container list" where
  "collect_containers soup [] containers = containers"
| "collect_containers soup (pattern # rest) containers =
     (case soup pattern of
        Inl e \<Rightarrow> collect_containers soup rest containers
      | Inr elements \<Rightarrow>
          if length elements \<ge> 2 then
            collect_containers soup rest
              (containers @
                 [\<lparr>selector = pattern, count = length elements,
                   sample_text = (if elements = [] then [] else take 100 (get_text (hd elements))),
                   confidence = calculate_container_confidence elements\<rparr>])
          else collect_containers soup rest containers)"

text \<open>
  \<^verbatim>\<open>sorted(xs, key=k, reverse=True)\<close> is stable: the list is reversed, sorted stably in
  ascending order of the key, and reversed again, so equal keys keep their order.
\<close>

definition sorted_reverse :: "('a \<Rightarrow> 'k::linorder) \<Rightarrow> 'a list \<Rightarrow> 'a list" where
  "sorted_reverse k xs = rev (sort_key k (rev xs))"

definition analyze_plan_containers :: "soup \<Rightarrow> container list" where
  "analyze_plan_containers soup = sorted_reverse confidence (collect_containers soup container_patterns [])"

subsection \<open>The listing of several_site_analyzer.py\<close>

text \<open>
  \<^verbatim>\<open>
  plan_containers = []
  container_selectors = [...]
  for selector in container_selectors:
      try:
          elements = soup.select(selector)
          if elements:
              plan_containers.append({'selector': selector, 'count': len(elements),
                  'sample_text': elements[0].get_text()[:100] if elements else ''})
      except:
          continue
  analysis['potential_plan_containers'] = plan_containers
  \<close>
\<close>

record potential_container =
  pc_selector :: string
  pc_count :: nat
  pc_sample_text :: string

definition container_selectors :: "string list" where
  \<open>container_selectors =
     [''.plan'', ''.product'', ''.card'', ''.subscription'', ''.abonnement'',
      ''.offer'', ''.package'', ''.tariff'', ''.mobile-plan'',
      ''[class*="plan"]'', ''[class*="product"]'', ''[class*="card"]'',
      ''[class*="subscription"]'', ''[id*="plan"]'']\<close>

fun potential_plan_containers ::
  "soup \<Rightarrow> string list \<Rightarrow> potential_container list \<Rightarrow> potential_container list"
where
  "potential_plan_containers soup [] plan_containers = plan_containers"
| "potential_plan_containers soup (sel # rest) plan_containers =
     (case soup sel of
        Inl e \<Rightarrow> potential_plan_containers soup rest plan_containers
      | Inr elements \<Rightarrow>
          if elements \<noteq> [] then
            potential_plan_containers soup rest
              (plan_containers @
                 [\<lparr>pc_selector = sel, pc_count = length elements,
                   pc_sample_text = (if elements = [] then [] else take 100 (get_text (hd elements)))\<rparr>])
          else potential_plan_containers soup rest plan_containers)"

definition analyze_page_containers :: "soup \<Rightarrow> potential_container list" where
  "analyze_page_containers soup = potential_plan_containers soup container_selectors []"

subsection \<open>Confidence of a candidate\<close>

text \<open>
  The fraction of the domain keywords found in one element's lower-cased text, as
  the specification words it, in exact arithmetic.
\<close>

definition keyword_fraction :: "element \<Rightarrow> rat" where
  "keyword_fraction elem =
     of_nat (card {kw \<in> set domain_keywords. sublist kw (py_lower (get_text elem))})
       / of_nat (card (set domain_keywords))"

lemma distinct_domain_keywords: "distinct domain_keywords"
  by (simp add: domain_keywords_def)

lemma length_domain_keywords: "length domain_keywords = 6"
  by (simp add: domain_keywords_def)

lemma keyword_matches_card:
  "keyword_matches t = card {kw \<in> set domain_keywords. sublist kw t}"
proof -
  have "{kw \<in> set domain_keywords. sublist kw t} = {kw. sublist kw t} \<inter> set domain_keywords"
    by auto
  then show ?thesis
    unfolding keyword_matches_def using distinct_length_filter [OF distinct_domain_keywords]
    by simp
qed

lemma keyword_matches_le: "keyword_matches t \<le> 6"
  unfolding keyword_matches_def using length_filter_le [of _ domain_keywords]
  by (simp add: length_domain_keywords)

lemma keyword_fraction_matches:
  "keyword_fraction elem = of_nat (keyword_matches (py_lower (get_text elem))) / of_nat (length domain_keywords)"
  by (simp add: keyword_fraction_def keyword_matches_card distinct_card [OF distinct_domain_keywords])

definition plan_card :: "string \<Rightarrow> element" where
  "plan_card t = \<lparr>get_text = t, tag_name = ''div'', classes = [''plan''], elem_id = [], style = []\<rparr>"



subsection \<open>Candidates: at least two matches, ranked by confidence\<close>

text \<open>Whether a pattern yields a candidate: the selection succeeds with two elements at least.\<close>

definition accepted :: "soup \<Rightarrow> string \<Rightarrow> bool" where
  "accepted soup pattern = (case soup pattern of Inl e \<Rightarrow> False | Inr elements \<Rightarrow> 2 \<le> length elements)"

definition matched :: "soup \<Rightarrow> string \<Rightarrow> element list" where
  "matched soup pattern = (case soup pattern of Inl e \<Rightarrow> [] | Inr elements \<Rightarrow> elements)"

definition candidate :: "soup \<Rightarrow> string \<Rightarrow> container" where
  "candidate soup pattern =
     \<lparr>selector = pattern, count = length (matched soup pattern),
      sample_text = (if matched soup pattern = [] then [] else take 100 (get_text (hd (matched soup pattern)))),
      confidence = calculate_container_confidence (matched soup pattern)\<rparr>"

lemma collect_containers_eq:
  "collect_containers soup ps acc = acc @ map (candidate soup) (filter (accepted soup) ps)"
proof (induction ps arbitrary: acc)
  case Nil
  then show ?case by simp
next
  case (Cons p ps)
  show ?case
  proof (cases "soup p")
    case (Inl e)
    then show ?thesis using Cons.IH by (simp add: accepted_def)
  next
    case (Inr elements)
    then show ?thesis using Cons.IH
      by (simp add: accepted_def candidate_def matched_def)
  qed
qed

lemma set_sorted_reverse: "set (sorted_reverse k xs) = set xs"
  by (simp add: sorted_reverse_def)

lemma sorted_reverse_descending:
  "sorted_wrt (\<lambda>a b. k b \<le> k a) (sorted_reverse k xs)"
proof -
  have "sorted (map k (sort_key k (rev xs)))" by (rule sorted_sort_key)
  then have "sorted_wrt (\<lambda>a b. k a \<le> k b) (sort_key k (rev xs))"
    by (simp add: sorted_map)
  then show ?thesis
    unfolding sorted_reverse_def by (simp add: sorted_wrt_rev)
qed

lemma sorted_reverse_stable:
  "filter (\<lambda>y. k y = v) (sorted_reverse k xs) = filter (\<lambda>y. k y = v) xs"
proof -
  have "filter (\<lambda>y. k y = v) (sorted_reverse k xs) = rev (filter (\<lambda>y. k y = v) (sort_key k (rev xs)))"
    by (simp add: sorted_reverse_def rev_filter)
  also have "\<dots> = rev (filter (\<lambda>y. k y = v) (rev xs))"
    by (simp only: sort_key_stable)
  also have "\<dots> = filter (\<lambda>y. k y = v) xs"
    by (simp add: rev_filter)
  finally show ?thesis .
qed

lemma analyze_plan_containers_set:
  "set (analyze_plan_containers soup) = candidate soup ` {p \<in> set container_patterns. accepted soup p}"
  by (simp add: analyze_plan_containers_def set_sorted_reverse collect_containers_eq)

text \<open>Read as meant, the scored analyzer keeps no pattern with fewer than two matches,
  and ranks by the float score alone, equal scores in the order of the pattern list.\<close>

lemma analyze_plan_containers_count:
  "(\<forall>c \<in> set (analyze_plan_containers soup). 2 \<le> count c)
   \<and> (\<forall>pattern e. soup pattern = Inr [e] \<longrightarrow>
         pattern \<notin> selector ` set (analyze_plan_containers soup))"
proof -
  have a: "2 \<le> count (candidate soup p)" if "accepted soup p" for p
    using that by (cases "soup p") (simp_all add: accepted_def candidate_def matched_def)
  have b: "\<not> accepted soup p" if "soup p = Inr [e]" for p e
    using that by (simp add: accepted_def)
  have s: "selector (candidate soup p) = p" for p by (simp add: candidate_def)
  show ?thesis
    unfolding analyze_plan_containers_set using a b s by force
qed

lemma analyze_plan_containers_sorted_stable:
  "sorted_wrt (\<lambda>a b. confidence b \<le> confidence a) (analyze_plan_containers soup)
   \<and> (\<forall>k. map selector (filter (\<lambda>c. confidence c = k) (analyze_plan_containers soup))
          = filter (\<lambda>p. accepted soup p \<and> calculate_container_confidence (matched soup p) = k)
              container_patterns)"
proof -
  have "map selector (filter (\<lambda>c. confidence c = k) (map (candidate soup) ps))
        = filter (\<lambda>p. calculate_container_confidence (matched soup p) = k) ps" for k ps
    by (induction ps) (simp_all add: candidate_def)
  then show ?thesis
    unfolding analyze_plan_containers_def
    by (simp add: sorted_reverse_descending sorted_reverse_stable collect_containers_eq conj_commute)
qed

text \<open>
  A page for the examples: \<^verbatim>\<open>.plan\<close> matches three cards and \<^verbatim>\<open>.product\<close> the same three
  and a fourth (so both sample the same three texts), \<^verbatim>\<open>.card\<close> matches one element,
  \<^verbatim>\<open>.offer\<close> two richer cards, one attribute pattern raises and nothing else matches.
\<close>

definition tie_soup :: soup where
  \<open>tie_soup pattern =
     (if pattern = ''.plan'' then Inr [plan_card ''199 kr'', plan_card ''299 kr'', plan_card ''399 kr'']
      else if pattern = ''.product'' then
        Inr [plan_card ''199 kr'', plan_card ''299 kr'', plan_card ''399 kr'', plan_card ''499 kr'']
      else if pattern = ''.card'' then Inr [plan_card ''Telia Frihet 299 KR 50 GB'']
      else if pattern = ''.offer'' then Inr [plan_card ''Mobil plan 5 GB 99 kr'', plan_card ''Mobil 1 GB 49 kr'']
      else if pattern = ''[class*="plan"]'' then Inl OtherException
      else Inr [])\<close>

text \<open>
  C4 (the code departs from it). On this page \<^verbatim>\<open>.card\<close> matches exactly one element, and
  the listing of several_site_analyzer.py returns it as a candidate with the count 1:
  its guard is \<^verbatim>\<open>if elements:\<close>, where the analyzer of unified_parser.py asks for two
  elements at least.
\<close>

theorem analyze_page_lists_single_match:
  "tie_soup ''.card'' = Inr [plan_card ''Telia Frihet 299 KR 50 GB'']
   \<and> map (\<lambda>c. (pc_selector c, pc_count c)) (analyze_page_containers tie_soup)
       = [(''.plan'', 3), (''.product'', 4), (''.card'', 1), (''.offer'', 2)]"
  by (simp add: analyze_page_containers_def container_selectors_def tie_soup_def)


text \<open>
  The ranking follows the floats, not the exact averages. Two pairs of cards whose
  keyword counts are 2, 3 and 0, 5 have the same exact average 5/12; the floats differ
  in the last place, and the second pattern is ranked first.
\<close>

definition float_soup :: soup where
  "float_soup pattern =
     (if pattern = ''.plan'' then Inr [plan_card ''5 GB 99 kr'', plan_card ''Plan 5 GB 99 kr'']
      else if pattern = ''.product'' then
        Inr [plan_card ''Ring oss'', plan_card ''Mobil abonnement: plan 5 GB, 99 kr'']
      else Inr [])"

lemma analyze_float_soup:
  "map (\<lambda>c. (selector c, confidence c)) (analyze_plan_containers float_soup)
   = [(''.product'', 7505999378950827 / 18014398509481984),
      (''.plan'', 3752999689475413 / 9007199254740992)]"
  by code_simp

section \<open>Consent detection: \<^verbatim>\<open>detect_cookie_banner\<close> (several_site_analyzer.py)\<close>

text \<open>
  The selectors of \<^verbatim>\<open>self.cookie_selectors\<close> and the keyword lists of
  \<^verbatim>\<open>cookie_keywords\<close>, a dictionary read in insertion order.
\<close>

definition accept_button_selectors :: "string list" where
  \<open>accept_button_selectors =
     [''[data-testid*="accept"]'', ''[data-cy*="accept"]'',
      ''.cookie-accept'', ''.accept-cookies'', ''.gdpr-accept'',
      ''button[class*="accept"]'', ''button[id*="accept"]'',
      ''button:-soup-contains("Godta")'', ''button:-soup-contains("Accept")'',
      ''button:-soup-contains("Aksepter")'', ''button:-soup-contains("OK")'',
      ''[aria-label*="accept"]'', ''[title*="accept"]'']\<close>

definition close_button_selectors :: "string list" where
  \<open>close_button_selectors =
     [''.cookie-close'', ''.modal-close'', ''.banner-close'',
      ''button[aria-label*="close"]'', ''button[title*="close"]'',
      ''.close'', ''[data-dismiss]'', ''.dismiss'']\<close>

definition banner_container_selectors :: "string list" where
  \<open>banner_container_selectors =
     [''.cookie-banner'', ''.gdpr-banner'', ''.consent-banner'',
      ''.privacy-notice'', ''#cookie-notice'', ''#gdpr-notice'',
      ''[class*="cookie"]'', ''[class*="consent"]'', ''[class*="gdpr"]'',
      ''[id*="cookie"]'', ''[id*="consent"]'', ''[role="dialog"]'']\<close>

definition modal_selector :: string where
  \<open>modal_selector = ''[role="dialog"], .modal, .overlay, [class*="modal"], [class*="overlay"]''\<close>

definition cookie_keywords :: "(string \<times> string list) list" where
  "cookie_keywords =
     [(''norwegian'', [''informasjonskapsler'', ''samtykke'', ''personvern'', ''cookies'', ''godta'']),
      (''english'', [''cookies'', ''consent'', ''privacy'', ''accept'', ''gdpr'', ''tracking'']),
      (''common'', [''cookie'', ''gdpr'', ''privacy policy'', ''data protection''])]"

definition accept_words :: "string list" where
  "accept_words = [''godta'', ''accept'', ''ok'', ''aksepter'']"

text \<open>
  \<^verbatim>\<open>
  found_keywords = []
  for lang, keywords in cookie_keywords.items():
      for keyword in keywords:
          if keyword.lower() in page_text:
              found_keywords.append(f"{keyword} ({lang})")
  \<close>
\<close>

definition found_keywords :: "string \<Rightarrow> string list" where
  "found_keywords page_text =
     concat (map (\<lambda>(lang, kws).
                    map (\<lambda>keyword. keyword @ '' ('' @ lang @ '')'')
                      (filter (\<lambda>keyword. sublist (py_lower keyword) page_text) kws))
               cookie_keywords)"

text \<open>
  \<^verbatim>\<open>
  def _detect_banner_position(self, element):
      classes = ' '.join(element.get('class', [])).lower()
      style = element.get('style', '').lower()
      position_indicators = {'top': ['top', 'header', 'fixed-top'],
          'bottom': ['bottom', 'footer', 'fixed-bottom'],
          'center': ['center', 'modal', 'popup'],
          'overlay': ['overlay', 'fixed', 'absolute']}
      for position, indicators in position_indicators.items():
          if any(indicator in classes or indicator in style for indicator in indicators):
              return position
      return 'unknown'
  \<close>
\<close>

fun join_space :: "string list \<Rightarrow> string" where
  "join_space [] = []"
| "join_space [x] = x"
| "join_space (x # y # ys) = x @ '' '' @ join_space (y # ys)"

definition position_indicators :: "(string \<times> string list) list" where
  "position_indicators =
     [(''top'', [''top'', ''header'', ''fixed-top'']),
      (''bottom'', [''bottom'', ''footer'', ''fixed-bottom'']),
      (''center'', [''center'', ''modal'', ''popup'']),
      (''overlay'', [''overlay'', ''fixed'', ''absolute''])]"

definition detect_banner_position :: "element \<Rightarrow> string" where
  "detect_banner_position elem =
     (let cls = py_lower (join_space (classes elem)); sty = py_lower (style elem)
      in case List.find (\<lambda>(position, indicators).
                           list_ex (\<lambda>indicator. sublist indicator cls \<or> sublist indicator sty) indicators)
                position_indicators of
           Some (position, indicators) \<Rightarrow> position
         | None \<Rightarrow> ''unknown'')"

record banner_element =
  be_selector :: string
  be_text :: string
  be_classes :: "string list"
  be_id :: string
  be_position :: string

record accept_button =
  ab_selector :: string
  ab_text :: string
  ab_element_type :: string
  ab_classes :: "string list"
  ab_id :: string

record close_button =
  cb_selector :: string
  cb_element_type :: string
  cb_classes :: "string list"
  cb_id :: string

record cookie_info =
  detected :: bool
  banner_elements :: "banner_element list"
  accept_buttons :: "accept_button list"
  close_buttons :: "close_button list"
  text_indicators :: "string list"
  banner_text :: string
  position :: string
  modal_overlay :: bool

text \<open>
  The three element loops. Each selection stands in a \<^verbatim>\<open>try\<close> whose handler is
  \<^verbatim>\<open>continue\<close>, so a selector that raises adds nothing.
  \<^verbatim>\<open>
  for selector in self.cookie_selectors['banner_containers']:
      try:
          elements = soup.select(selector)
          if elements:
              for elem in elements:
                  text = elem.get_text().strip()[:200]
                  if any(kw in text.lower() for kw_list in cookie_keywords.values() for kw in kw_list):
                      cookie_info['banner_elements'].append({...})
      except Exception:
          continue
  for selector in self.cookie_selectors['accept_buttons']:
      try:
          elements = soup.select(selector)
          for elem in elements:
              text = elem.get_text().strip()
              if text and any(word in text.lower() for word in ['godta', 'accept', 'ok', 'aksepter']):
                  cookie_info['accept_buttons'].append({...})
      except Exception:
          continue
  \<close>
\<close>

definition has_cookie_keyword :: "string \<Rightarrow> bool" where
  "has_cookie_keyword t = list_ex (\<lambda>(lang, kw_list). list_ex (\<lambda>kw. sublist kw t) kw_list) cookie_keywords"

definition banner_of :: "string \<Rightarrow> element \<Rightarrow> banner_element list" where
  "banner_of sel elem =
     (let t = take 200 (py_strip (get_text elem))
      in if has_cookie_keyword (py_lower t)
         then [\<lparr>be_selector = sel, be_text = t, be_classes = classes elem, be_id = elem_id elem,
                be_position = detect_banner_position elem\<rparr>]
         else [])"

fun find_banner_elements :: "soup \<Rightarrow> string list \<Rightarrow> banner_element list \<Rightarrow> banner_element list" where
  "find_banner_elements soup [] found = found"
| "find_banner_elements soup (sel # rest) found =
     (case soup sel of
        Inl e \<Rightarrow> find_banner_elements soup rest found
      | Inr elements \<Rightarrow> find_banner_elements soup rest (found @ concat (map (banner_of sel) elements)))"

definition accept_of :: "string \<Rightarrow> element \<Rightarrow> accept_button list" where
  "accept_of sel elem =
     (let t = py_strip (get_text elem)
      in if t \<noteq> [] \<and> list_ex (\<lambda>word. sublist word (py_lower t)) accept_words
         then [\<lparr>ab_selector = sel, ab_text = t, ab_element_type = tag_name elem,
                ab_classes = classes elem, ab_id = elem_id elem\<rparr>]
         else [])"

fun find_accept_buttons :: "soup \<Rightarrow> string list \<Rightarrow> accept_button list \<Rightarrow> accept_button list" where
  "find_accept_buttons soup [] found = found"
| "find_accept_buttons soup (sel # rest) found =
     (case soup sel of
        Inl e \<Rightarrow> find_accept_buttons soup rest found
      | Inr elements \<Rightarrow> find_accept_buttons soup rest (found @ concat (map (accept_of sel) elements)))"

definition close_of :: "string \<Rightarrow> element \<Rightarrow> close_button" where
  "close_of sel elem =
     \<lparr>cb_selector = sel, cb_element_type = tag_name elem, cb_classes = classes elem, cb_id = elem_id elem\<rparr>"

fun find_close_buttons :: "soup \<Rightarrow> string list \<Rightarrow> close_button list \<Rightarrow> close_button list" where
  "find_close_buttons soup [] found = found"
| "find_close_buttons soup (sel # rest) found =
     (case soup sel of
        Inl e \<Rightarrow> find_close_buttons soup rest found
      | Inr elements \<Rightarrow> find_close_buttons soup rest (found @ map (close_of sel) elements))"

text \<open>
  The rest of the function. The selection of the modal markers stands outside any
  \<^verbatim>\<open>try\<close>: when it raises, so does \<^verbatim>\<open>detect_cookie_banner\<close>.
  \<^verbatim>\<open>
  modal_indicators = soup.select('[role="dialog"], .modal, .overlay, [class*="modal"], [class*="overlay"]')
  cookie_info['modal_overlay'] = len(modal_indicators) > 0
  cookie_info['detected'] = (len(found_keywords) >= 2 or
      len(cookie_info['banner_elements']) > 0 or len(cookie_info['accept_buttons']) > 0)
  if cookie_info['banner_elements']:
      cookie_info['banner_text'] = cookie_info['banner_elements'][0]['text']
      cookie_info['position'] = cookie_info['banner_elements'][0]['position']
  return cookie_info
  \<close>
\<close>

definition detect_cookie_banner :: "soup \<Rightarrow> string \<Rightarrow> py_exn + cookie_info" where
  "detect_cookie_banner soup page_text =
     (let fk = found_keywords page_text;
          banners = find_banner_elements soup banner_container_selectors [];
          accepts = find_accept_buttons soup accept_button_selectors [];
          closes = find_close_buttons soup close_button_selectors []
      in case soup modal_selector of
           Inl e \<Rightarrow> Inl e
         | Inr modal_indicators \<Rightarrow>
             Inr \<lparr>detected = (length fk \<ge> 2 \<or> length banners > 0 \<or> length accepts > 0),
                  banner_elements = banners,
                  accept_buttons = accepts,
                  close_buttons = closes,
                  text_indicators = fk,
                  banner_text = (if banners \<noteq> [] then be_text (hd banners) else []),
                  position = (if banners \<noteq> [] then be_position (hd banners) else ''unknown''),
                  modal_overlay = (length modal_indicators > 0)\<rparr>)"

subsection \<open>When a banner counts as detected\<close>

text \<open>The keyword entries: every keyword with the list it stands in, in reading order.\<close>

definition keyword_entries :: "(string \<times> string) list" where
  "keyword_entries = concat (map (\<lambda>(lang, kws). map (Pair lang) kws) cookie_keywords)"

lemma length_found_keywords:
  "length (found_keywords page_text)
     = length (filter (\<lambda>(lang, kw). sublist (py_lower kw) page_text) keyword_entries)"
  by (simp add: found_keywords_def keyword_entries_def cookie_keywords_def filter_map comp_def)

lemma find_banner_elements_eq:
  "find_banner_elements soup sels found
     = found @ concat (map (\<lambda>sel. concat (map (banner_of sel) (matched soup sel))) sels)"
proof (induction sels arbitrary: found)
  case Nil
  then show ?case by simp
next
  case (Cons sel sels)
  then show ?case by (cases "soup sel") (simp_all add: matched_def)
qed

lemma find_accept_buttons_eq:
  "find_accept_buttons soup sels found
     = found @ concat (map (\<lambda>sel. concat (map (accept_of sel) (matched soup sel))) sels)"
proof (induction sels arbitrary: found)
  case Nil
  then show ?case by simp
next
  case (Cons sel sels)
  then show ?case by (cases "soup sel") (simp_all add: matched_def)
qed

lemma banners_nonempty_iff:
  "find_banner_elements soup sels [] \<noteq> [] \<longleftrightarrow>
     (\<exists>sel \<in> set sels. \<exists>elem \<in> set (matched soup sel).
        has_cookie_keyword (py_lower (take 200 (py_strip (get_text elem)))))"
  by (auto simp: find_banner_elements_eq banner_of_def Let_def split: if_splits)

lemma accepts_nonempty_iff:
  "find_accept_buttons soup sels [] \<noteq> [] \<longleftrightarrow>
     (\<exists>sel \<in> set sels. \<exists>elem \<in> set (matched soup sel).
        py_strip (get_text elem) \<noteq> []
        \<and> list_ex (\<lambda>word. sublist word (py_lower (py_strip (get_text elem)))) accept_words)"
  by (auto simp: find_accept_buttons_eq accept_of_def Let_def split: if_splits)

definition empty_soup :: soup where
  "empty_soup sel = Inr []"

definition banner_soup :: soup where
  "banner_soup sel =
     (if sel = ''.cookie-banner'' then
        Inr [\<lparr>get_text = ''  Vi bruker informasjonskapsler  '', tag_name = ''div'',
              classes = [''cookie-banner'', ''fixed-bottom''], elem_id = ''cb'', style = []\<rparr>]
      else if sel = ''.cookie-accept'' then
        Inr [\<lparr>get_text = ''Godta alle'', tag_name = ''button'',
              classes = [''cookie-accept''], elem_id = [], style = []\<rparr>]
      else if sel = ''.gdpr-banner'' then Inl OtherException
      else Inr [])"

definition banner_info :: cookie_info where
  "banner_info =
     \<lparr>detected = True,
      banner_elements =
        [\<lparr>be_selector = ''.cookie-banner'', be_text = ''Vi bruker informasjonskapsler'',
          be_classes = [''cookie-banner'', ''fixed-bottom''], be_id = ''cb'', be_position = ''bottom''\<rparr>],
      accept_buttons =
        [\<lparr>ab_selector = ''.cookie-accept'', ab_text = ''Godta alle'', ab_element_type = ''button'',
          ab_classes = [''cookie-accept''], ab_id = []\<rparr>],
      close_buttons = [], text_indicators = [],
      banner_text = ''Vi bruker informasjonskapsler'', position = ''bottom'', modal_overlay = False\<rparr>"

lemma detect_banner_soup: "detect_cookie_banner banner_soup ''velkommen'' = Inr banner_info"
  by code_simp

lemma detect_modal_raises:
  "soup modal_selector = Inl e \<Longrightarrow> detect_cookie_banner soup page_text = Inl e"
  by (simp add: detect_cookie_banner_def Let_def)

text \<open>
  C7 (as amended). When \<^verbatim>\<open>detect_cookie_banner\<close> returns, its \<^verbatim>\<open>detected\<close> flag is true
  exactly when two keyword entries at least are found in the page text (an entry is a
  keyword of one of the three lists, so a keyword that two lists hold counts twice), or
  a banner-container selector matches an element whose stripped, truncated and
  lower-cased text holds a consent keyword, or an accept-button selector matches an
  element whose stripped text is not empty and holds an affirmative word.
\<close>

theorem detect_cookie_banner_detected:
  assumes "detect_cookie_banner soup page_text = Inr ci"
  shows "detected ci \<longleftrightarrow>
           2 \<le> length (filter (\<lambda>(lang, kw). sublist (py_lower kw) page_text) keyword_entries)
         \<or> (\<exists>sel \<in> set banner_container_selectors. \<exists>elem \<in> set (matched soup sel).
               has_cookie_keyword (py_lower (take 200 (py_strip (get_text elem)))))
         \<or> (\<exists>sel \<in> set accept_button_selectors. \<exists>elem \<in> set (matched soup sel).
               py_strip (get_text elem) \<noteq> []
               \<and> list_ex (\<lambda>word. sublist word (py_lower (py_strip (get_text elem)))) accept_words)"
proof -
  from assms have
    "detected ci \<longleftrightarrow>
       2 \<le> length (found_keywords page_text)
       \<or> find_banner_elements soup banner_container_selectors [] \<noteq> []
       \<or> find_accept_buttons soup accept_button_selectors [] \<noteq> []"
    by (cases "soup modal_selector") (auto simp: detect_cookie_banner_def Let_def)
  then show ?thesis
    by (simp only: length_found_keywords banners_nonempty_iff accepts_nonempty_iff)
qed

theorem detect_cookie_banner_detected_witness:
  "detect_cookie_banner banner_soup ''velkommen'' = Inr banner_info
   \<and> detected banner_info
   \<and> length (filter (\<lambda>(lang, kw). sublist (py_lower kw) ''velkommen'') keyword_entries) = 0"
proof -
  have acc: "\<exists>sel \<in> set accept_button_selectors. \<exists>elem \<in> set (matched banner_soup sel).
               py_strip (get_text elem) \<noteq> []
               \<and> list_ex (\<lambda>word. sublist word (py_lower (py_strip (get_text elem)))) accept_words"
    by code_simp
  have none: "length (filter (\<lambda>(lang, kw). sublist (py_lower kw) ''velkommen'') keyword_entries) = 0"
    by code_simp
  show ?thesis
    using detect_cookie_banner_detected [OF detect_banner_soup] acc none detect_banner_soup
    by blast
qed

text \<open>
  C7 as stated fails: a page whose text holds the single keyword \<^verbatim>\<open>gdpr\<close>, with no
  banner element and no accept button, is detected, because \<^verbatim>\<open>gdpr\<close> stands in the
  English and in the common list and is counted once for each.
\<close>

theorem detected_single_keyword_counterexample:
  "(case detect_cookie_banner empty_soup ''gdpr'' of
      Inl e \<Rightarrow> False
    | Inr ci \<Rightarrow> detected ci \<and> banner_elements ci = [] \<and> accept_buttons ci = []
                \<and> text_indicators ci = [''gdpr (english)'', ''gdpr (common)''])
   \<and> card (set (filter (\<lambda>kw. sublist (py_lower kw) ''gdpr'') (map snd keyword_entries))) = 1"
proof -
  have "filter (\<lambda>kw. sublist (py_lower kw) ''gdpr'') (map snd keyword_entries) = [''gdpr'', ''gdpr'']"
    by code_simp
  moreover have "detect_cookie_banner empty_soup ''gdpr'' = Inr \<lparr>detected = True, banner_elements = [], accept_buttons = [], close_buttons = [],
          text_indicators = [''gdpr (english)'', ''gdpr (common)''], banner_text = [], position = ''unknown'', modal_overlay = False\<rparr>"
    by code_simp
  ultimately show ?thesis by simp
qed

subsection \<open>The banner flag of unified_parser.py\<close>

text \<open>
  \<^verbatim>\<open>analyze_site_structure\<close> of unified_parser.py sets another flag, from elements alone:
  \<^verbatim>\<open>
  def _detect_cookie_elements(self, soup):
      cookie_elements = {'accept_buttons': [], 'banners': []}
      for pattern in self.cookie_selectors['accept_patterns']:
          try:
              elements = soup.select(pattern)
              for elem in elements:
                  text = elem.get_text().strip().lower()
                  if any(word in text for word in ['godta', 'accept', 'ok', 'aksepter']):
                      cookie_elements['accept_buttons'].append(pattern)
                      break
          except:
              continue
      for pattern in self.cookie_selectors['banner_patterns']:
          try:
              if soup.select(pattern):
                  cookie_elements['banners'].append(pattern)
          except:
              continue
      return cookie_elements
  ...
  has_cookie_banner = bool(cookie_elements['accept_buttons'] or cookie_elements['banners'])
  \<close>
  The inner loop appends the pattern once and stops at the first element whose text
  holds an affirmative word.
\<close>

definition accept_patterns :: "string list" where
  \<open>accept_patterns =
     [''[data-testid*="accept"]'', ''[data-cy*="accept"]'',
      ''.cookie-accept'', ''.accept-cookies'', ''.gdpr-accept'',
      ''button[class*="accept"]'', ''button[id*="accept"]'',
      ''button:-soup-contains("Godta")'', ''button:-soup-contains("Accept")'',
      ''button:-soup-contains("Aksepter")'', ''[aria-label*="accept"]'']\<close>

definition banner_patterns :: "string list" where
  \<open>banner_patterns =
     [''.cookie-banner'', ''.gdpr-banner'', ''.consent-banner'',
      ''#cookie-notice'', ''[class*="cookie"]'', ''[role="dialog"]'']\<close>

fun detect_accept_patterns :: "soup \<Rightarrow> string list \<Rightarrow> string list \<Rightarrow> string list" where
  "detect_accept_patterns soup [] found = found"
| "detect_accept_patterns soup (pattern # rest) found =
     (case soup pattern of
        Inl e \<Rightarrow> detect_accept_patterns soup rest found
      | Inr elements \<Rightarrow>
          if list_ex (\<lambda>elem. list_ex (\<lambda>word. sublist word (py_lower (py_strip (get_text elem)))) accept_words)
               elements
          then detect_accept_patterns soup rest (found @ [pattern])
          else detect_accept_patterns soup rest found)"

fun detect_banner_patterns :: "soup \<Rightarrow> string list \<Rightarrow> string list \<Rightarrow> string list" where
  "detect_banner_patterns soup [] found = found"
| "detect_banner_patterns soup (pattern # rest) found =
     (case soup pattern of
        Inl e \<Rightarrow> detect_banner_patterns soup rest found
      | Inr elements \<Rightarrow>
          if elements \<noteq> [] then detect_banner_patterns soup rest (found @ [pattern])
          else detect_banner_patterns soup rest found)"

definition has_cookie_banner :: "soup \<Rightarrow> bool" where
  "has_cookie_banner soup =
     (detect_accept_patterns soup accept_patterns [] \<noteq> [] \<or> detect_banner_patterns soup banner_patterns [] \<noteq> [])"

lemma has_cookie_banner_empty_soup: "\<not> has_cookie_banner empty_soup"
  by (simp add: has_cookie_banner_def empty_soup_def accept_patterns_def banner_patterns_def)

section \<open>Enrichment and the record loop (src/utils.py, src/scraper.py)\<close>

text \<open>
  A value of an extracted record or of a lookup result: null, a string, a number or a
  list. A record is the dictionary the extraction returns under the schema
  \<^verbatim>\<open>ServiceProvider\<close>, which types \<^verbatim>\<open>name\<close> as \<^verbatim>\<open>str\<close>: the model keeps the name, as
  \<^verbatim>\<open>record.get("name", "")\<close> reads it (empty when the key is missing), next to the other
  keys. A record whose name is not a string is outside the model.
\<close>

datatype pyval = PNone | PStr string | PInt int | PFloat rat | PList "pyval list"

type_synonym py_dict = "string \<rightharpoonup> pyval"

record item =
  name :: string
  attrs :: py_dict

text \<open>\<^verbatim>\<open>d.get(key)\<close>: the value, or \<^verbatim>\<open>None\<close> for a missing key.\<close>

definition dict_get :: "py_dict \<Rightarrow> string \<Rightarrow> pyval" where
  "dict_get d k = (case d k of None \<Rightarrow> PNone | Some v \<Rightarrow> v)"

text \<open>
  \<^verbatim>\<open>
  def is_duplicated(name: str, seen_names: set) -> bool:
      return name in seen_names
  \<close>
\<close>

definition is_duplicated :: "string \<Rightarrow> string set \<Rightarrow> bool" where
  "is_duplicated n seen_names = (n \<in> seen_names)"

subsection \<open>\<^verbatim>\<open>fetch_trustpilot_reviews\<close> (src/scraper.py)\<close>

text \<open>
  \<^verbatim>\<open>
  async def fetch_trustpilot_reviews(provider_name, crawler):
      if not provider_name:
          return {"score": None, "reviews": None, "url": None}
      try:
          search_url = f"{TRUSTPILOT_SEARCH_URL}{provider_name.replace(' ', '%20')}"
          result = await crawler.arun(url=search_url, config=...)
          if result.success:
              return extract_trustpilot_data(result.cleaned_html)
      except Exception as e:
          print(...)
      return {"score": None, "reviews": None, "url": None}
  \<close>
  The crawler is the environment: \<^verbatim>\<open>arun\<close> on a URL raises or yields a result.
  \<^verbatim>\<open>extract_trustpilot_data\<close> has the two parameters \<^verbatim>\<open>provider_name\<close> and \<^verbatim>\<open>context\<close>
  and no default; the call above passes one argument, so Python raises \<^verbatim>\<open>TypeError\<close>
  while binding the arguments, before the body runs (for an \<^verbatim>\<open>async def\<close> too).
\<close>

record crawl_result =
  success :: bool
  cleaned_html :: string

type_synonym crawler = "string \<Rightarrow> py_exn + crawl_result"

definition TRUSTPILOT_SEARCH_URL :: string where
  "TRUSTPILOT_SEARCH_URL = ''https://no.trustpilot.com/search?query=''"

text \<open>\<^verbatim>\<open>provider_name.replace(' ', '%20')\<close>\<close>

definition encode_spaces :: "string \<Rightarrow> string" where
  "encode_spaces s = concat (map (\<lambda>c. if c = CHR '' '' then ''%20'' else [c]) s)"

definition none_result :: py_dict where
  "none_result = [''score'' \<mapsto> PNone, ''reviews'' \<mapsto> PNone, ''url'' \<mapsto> PNone]"

text \<open>Binding \<open>n\<close> positional arguments to a function of \<open>k\<close> required parameters.\<close>

definition bind_args :: "nat \<Rightarrow> nat \<Rightarrow> py_exn + unit" where
  "bind_args k n = (if n = k then Inr () else Inl TypeError)"

definition fetch_trustpilot_reviews :: "crawler \<Rightarrow> string \<Rightarrow> py_exn + py_dict" where
  "fetch_trustpilot_reviews crawl provider_name =
     (if provider_name = [] then Inr none_result
      else
        (let search_url = TRUSTPILOT_SEARCH_URL @ encode_spaces provider_name;
             tried =
               (case crawl search_url of
                  Inl e \<Rightarrow> Inl e
                | Inr result \<Rightarrow>
                    if success result then
                      (case bind_args 2 1 of Inl e \<Rightarrow> Inl e | Inr u \<Rightarrow> Inr None)
                    else Inr None)
         in case tried of
              Inl e \<Rightarrow> Inr none_result
            | Inr returned \<Rightarrow> (case returned of Some d \<Rightarrow> Inr d | None \<Rightarrow> Inr none_result)))"

subsection \<open>The record loop of \<^verbatim>\<open>fetch_and_process_page\<close> (src/scraper.py)\<close>

text \<open>
  \<^verbatim>\<open>
  all_records = []
  for record in extracted_data:
      try:
          name = record.get("name", "")
          if not name or is_duplicated(name, seen_names):
              continue
          if model_type == "mobile_service_provider":
              trustpilot_data = await fetch_trustpilot_reviews(name, crawler)
              record.update({
                  "trustpilot_score": trustpilot_data.get("score"),
                  "trustpilot_reviews": trustpilot_data.get("reviews"),
                  "trustpilot_url": trustpilot_data.get("url")})
          record["last_updated"] = datetime.now().strftime("%Y-%m-%d")
          seen_names.add(name)
          all_records.append(record)
      except Exception as e:
          print(...)
  return all_records, False
  \<close>
  The state is the set \<^verbatim>\<open>seen_names\<close>, which the caller owns and passes to every page,
  and the list \<^verbatim>\<open>all_records\<close>. The date of the run is a parameter.
\<close>

definition enrich :: "py_dict \<Rightarrow> item \<Rightarrow> item" where
  "enrich trustpilot_data r =
     r\<lparr>attrs := (attrs r)(''trustpilot_score'' \<mapsto> dict_get trustpilot_data ''score'',
                           ''trustpilot_reviews'' \<mapsto> dict_get trustpilot_data ''reviews'',
                           ''trustpilot_url'' \<mapsto> dict_get trustpilot_data ''url'')\<rparr>"

definition stamp :: "string \<Rightarrow> item \<Rightarrow> item" where
  "stamp today r = r\<lparr>attrs := (attrs r)(''last_updated'' \<mapsto> PStr today)\<rparr>"

fun process_records ::
  "crawler \<Rightarrow> string \<Rightarrow> string \<Rightarrow> item list \<Rightarrow> string set \<Rightarrow> item list \<Rightarrow> item list \<times> string set"
where
  "process_records crawl model_type today [] seen_names all_records = (all_records, seen_names)"
| "process_records crawl model_type today (r # rest) seen_names all_records =
     (if name r = [] \<or> is_duplicated (name r) seen_names then
        process_records crawl model_type today rest seen_names all_records
      else if model_type = ''mobile_service_provider'' then
        (case fetch_trustpilot_reviews crawl (name r) of
           Inl e \<Rightarrow> process_records crawl model_type today rest seen_names all_records
         | Inr trustpilot_data \<Rightarrow>
             process_records crawl model_type today rest (insert (name r) seen_names)
               (all_records @ [stamp today (enrich trustpilot_data r)]))
      else
        process_records crawl model_type today rest (insert (name r) seen_names)
          (all_records @ [stamp today r]))"

text \<open>
  The function around the loop:
  \<^verbatim>\<open>
  no_results = await check_no_results(crawler, url, session_id)
  if no_results:
      return [], True
  ...
  result = await crawler.arun(url=url, config=...)
  if not result or not result.success:
      return [], False
  extracted_data = []
  if result.extracted_content:
      try:
          extracted_data = json.loads(result.extracted_content)
          if not isinstance(extracted_data, list):
              extracted_data = [extracted_data]
      except json.JSONDecodeError:
          print(...)
  ...
  if not extracted_data:
      return [], False
  \<close>
  \<^verbatim>\<open>check_no_results\<close> catches what it raises and answers \<^verbatim>\<open>False\<close> then; a page load that
  raises returns \<^verbatim>\<open>[], False\<close>. The model takes the answer of the check and the outcome
  of the load, whose content is the list of records already decoded (empty when there
  is no content or it does not decode).
\<close>

record page_result =
  page_success :: bool
  extracted_data :: "item list"

definition fetch_and_process_page ::
  "crawler \<Rightarrow> bool \<Rightarrow> py_exn + page_result \<Rightarrow> string \<Rightarrow> string \<Rightarrow> string set
     \<Rightarrow> (item list \<times> bool) \<times> string set"
where
  "fetch_and_process_page crawl no_results loaded model_type today seen_names =
     (if no_results then (([], True), seen_names)
      else case loaded of
             Inl e \<Rightarrow> (([], False), seen_names)
           | Inr result \<Rightarrow>
               if \<not> page_success result \<or> extracted_data result = [] then (([], False), seen_names)
               else (case process_records crawl model_type today (extracted_data result) seen_names [] of
                       (all_records, seen') \<Rightarrow> ((all_records, False), seen')))"

lemma fetch_and_process_page_records:
  assumes "\<not> no_results" and "loaded = Inr result" and "page_success result"
  shows "fst (fst (fetch_and_process_page crawl no_results loaded model_type today seen_names))
           = fst (process_records crawl model_type today (extracted_data result) seen_names [])
         \<and> snd (fetch_and_process_page crawl no_results loaded model_type today seen_names)
           = snd (process_records crawl model_type today (extracted_data result) seen_names [])"
  using assms by (cases "extracted_data result") (simp_all add: fetch_and_process_page_def split: prod.splits)

section \<open>Orchestrator: \<^verbatim>\<open>parse_all_operators\<close> (unified_parser.py, main.py)\<close>

text \<open>
  \<^verbatim>\<open>
  tasks = [self.parse_operator(key) for key in self.operators_config.keys()]
  results = await asyncio.gather(*tasks, return_exceptions=True)
  all_plans = []
  for i, result in enumerate(results):
      operator_key = list(self.operators_config.keys())[i]
      if isinstance(result, Exception):
          logger.error(...)
      else:
          plans, analysis = result
          all_plans.extend(plans)
  self.plans = all_plans
  return all_plans
  \<close>
  \<^verbatim>\<open>gather\<close> returns the results in the order of the tasks, an exception standing for a
  task that raised. The model takes this list; the analysis record of a target plays no
  part in the merge and is left abstract. (main.py has the same loop over plan lists.)
\<close>

record mobile_plan =
  plan_name :: string
  operator :: string
  price :: string
  data :: string
  calls :: string
  sms :: string
  validity :: string
  additional_info :: string
  source_url :: string

fun merge_results :: "(py_exn + mobile_plan list \<times> 'a) list \<Rightarrow> mobile_plan list \<Rightarrow> mobile_plan list" where
  "merge_results [] all_plans = all_plans"
| "merge_results (result # rest) all_plans =
     (case result of
        Inl e \<Rightarrow> merge_results rest all_plans
      | Inr (plans, analysis) \<Rightarrow> merge_results rest (all_plans @ plans))"

definition parse_all_operators :: "(py_exn + mobile_plan list \<times> 'a) list \<Rightarrow> mobile_plan list" where
  "parse_all_operators results = merge_results results []"

section \<open>Deduplication and merge\<close>

text \<open>The lookup of src/scraper.py returns the all-null result, whatever the crawler does.\<close>

lemma fetch_trustpilot_reviews_none:
  "fetch_trustpilot_reviews crawl provider_name = Inr none_result"
proof (cases "provider_name = []")
  case True
  then show ?thesis by (simp add: fetch_trustpilot_reviews_def)
next
  case False
  show ?thesis
  proof (cases "crawl (TRUSTPILOT_SEARCH_URL @ encode_spaces provider_name)")
    case (Inl e)
    then show ?thesis using False by (simp add: fetch_trustpilot_reviews_def Let_def)
  next
    case (Inr result)
    then show ?thesis using False
      by (simp add: fetch_trustpilot_reviews_def Let_def bind_args_def)
  qed
qed

text \<open>What the loop makes of a record it keeps.\<close>

definition finalize :: "string \<Rightarrow> string \<Rightarrow> item \<Rightarrow> item" where
  "finalize model_type today r =
     (if model_type = ''mobile_service_provider'' then stamp today (enrich none_result r)
      else stamp today r)"

text \<open>The records the loop keeps: the first of every name that is not empty and not
  seen before.\<close>

fun first_seen :: "string set \<Rightarrow> item list \<Rightarrow> item list" where
  "first_seen seen [] = []"
| "first_seen seen (r # rs) =
     (if name r = [] \<or> name r \<in> seen then first_seen seen rs
      else r # first_seen (insert (name r) seen) rs)"

lemma process_records_eq:
  "process_records crawl model_type today rs seen acc =
     (acc @ map (finalize model_type today) (first_seen seen rs),
      seen \<union> name ` set (first_seen seen rs))"
proof (induction rs arbitrary: seen acc)
  case Nil
  then show ?case by simp
next
  case (Cons r rs)
  show ?case
  proof (cases "name r = [] \<or> name r \<in> seen")
    case True
    then show ?thesis using Cons.IH [of seen acc] by (auto simp: is_duplicated_def)
  next
    case False
    have step: "process_records crawl model_type today (r # rs) seen acc =
        process_records crawl model_type today rs (insert (name r) seen)
          (acc @ [finalize model_type today r])"
      using False by (simp add: is_duplicated_def fetch_trustpilot_reviews_none finalize_def)
    show ?thesis unfolding step Cons.IH using False by simp
  qed
qed

lemma name_finalize: "name (finalize model_type today r) = name r"
  by (simp add: finalize_def stamp_def enrich_def)

lemma names_first_seen:
  "name ` set (first_seen seen rs) = {n \<in> name ` set rs. n \<noteq> [] \<and> n \<notin> seen}"
proof (induction rs arbitrary: seen)
  case Nil
  then show ?case by simp
next
  case (Cons r rs)
  then show ?case by (auto simp: image_iff)
qed

lemma distinct_first_seen: "distinct (map name (first_seen seen rs))"
proof (induction rs arbitrary: seen)
  case Nil
  then show ?case by simp
next
  case (Cons r rs)
  have "name r \<notin> name ` set (first_seen (insert (name r) seen) rs)"
    by (simp add: names_first_seen)
  then show ?case using Cons.IH by simp
qed

lemma subseq_first_seen: "subseq (first_seen seen rs) rs"
  by (induction rs arbitrary: seen) (auto intro: list_emb_Cons)

lemma find_first_seen:
  "r \<in> set (first_seen seen rs) \<Longrightarrow> List.find (\<lambda>x. name x = name r) rs = Some r"
proof (induction rs arbitrary: seen)
  case Nil
  then show ?case by simp
next
  case (Cons x rs)
  show ?case
  proof (cases "name x = [] \<or> name x \<in> seen")
    case True
    then have mem: "r \<in> set (first_seen seen rs)" using Cons.prems by simp
    then have "name r \<in> {n \<in> name ` set rs. n \<noteq> [] \<and> n \<notin> seen}"
      using names_first_seen [of seen rs] by blast
    then have "name x \<noteq> name r" using True by auto
    then show ?thesis using Cons.IH [OF mem] by simp
  next
    case False
    then have "r = x \<or> r \<in> set (first_seen (insert (name x) seen) rs)"
      using Cons.prems by auto
    then show ?thesis
    proof
      assume "r = x"
      then show ?thesis by simp
    next
      assume mem: "r \<in> set (first_seen (insert (name x) seen) rs)"
      then have "name r \<in> {n \<in> name ` set rs. n \<noteq> [] \<and> n \<notin> insert (name x) seen}"
        using names_first_seen [of "insert (name x) seen" rs] by blast
      then have "name x \<noteq> name r" by auto
      then show ?thesis using Cons.IH [OF mem] by simp
    qed
  qed
qed

fun plans_of :: "py_exn + mobile_plan list \<times> 'a \<Rightarrow> mobile_plan list" where
  "plans_of (Inl e) = []"
| "plans_of (Inr (plans, analysis)) = plans"

lemma merge_results_eq: "merge_results results acc = acc @ concat (map plans_of results)"
proof (induction results arbitrary: acc)
  case Nil
  then show ?case by simp
next
  case (Cons result results)
  then show ?case by (cases result) (auto split: prod.splits)
qed

text \<open>Examples: two targets that both offer a plan called Telia Frihet, and a page of
  extracted records with a repeated name, an empty name and a name seen on an earlier
  page, read while every lookup times out.\<close>

definition frihet :: "string \<Rightarrow> mobile_plan" where
  "frihet op =
     \<lparr>plan_name = ''Telia Frihet'', operator = op, price = ''299 kr'', data = ''50 GB'',
      calls = [], sms = [], validity = [], additional_info = [], source_url = []\<rparr>"

definition two_targets :: "(py_exn + mobile_plan list \<times> unit) list" where
  "two_targets = [Inr ([frihet ''Telia''], ()), Inl TimeoutError, Inr ([frihet ''Telenor''], ())]"

definition named :: "string \<Rightarrow> int \<Rightarrow> item" where
  "named n p = \<lparr>name = n, attrs = [''monthly_price'' \<mapsto> PInt p]\<rparr>"

definition page_records :: "item list" where
  "page_records =
     [named ''Telia Frihet'' 299, named [] 99, named ''Telia Smart'' 199,
      named ''Telia Frihet'' 349, named ''Ice Mini'' 149, named ''telia frihet'' 249,
      named '' Telia Frihet'' 259]"

definition timing_out :: crawler where
  "timing_out url = Inl TimeoutError"

lemma process_page_records:
  "map name (fst (process_records timing_out ''mobile_service_provider'' ''2025-01-01''
                    page_records {''Ice Mini''} []))
   = [''Telia Frihet'', ''Telia Smart'', ''telia frihet'', '' Telia Frihet'']"
  by (simp add: process_records_eq page_records_def named_def name_finalize comp_def)

text \<open>
  C1 (as amended). The merge over the targets keeps every item of every target that
  did not raise, in the order of the targets and within a target in the order of
  discovery, and removes nothing: items of one name are all kept. Names are deduplicated
  by the record loop of one page alone: its output holds one record per name, the names
  being those of the page that are neither empty nor seen before, in the order of the
  page; the record kept for a name is the first one of that name, as the loop finishes
  it; and the names kept join the seen names.
\<close>

theorem merge_concatenates_and_page_loop_dedups:
  "parse_all_operators results = concat (map plans_of results)
   \<and> distinct (map name (fst (process_records crawl model_type today rs seen [])))
   \<and> set (map name (fst (process_records crawl model_type today rs seen [])))
       = {n \<in> name ` set rs. n \<noteq> [] \<and> n \<notin> seen}
   \<and> subseq (map name (fst (process_records crawl model_type today rs seen []))) (map name rs)
   \<and> (\<forall>out \<in> set (fst (process_records crawl model_type today rs seen [])).
         \<exists>r. List.find (\<lambda>x. name x = name out) rs = Some r \<and> out = finalize model_type today r)
   \<and> snd (process_records crawl model_type today rs seen [])
       = seen \<union> set (map name (fst (process_records crawl model_type today rs seen [])))"
proof -
  have n: "name \<circ> finalize model_type today = name"
    by (rule ext) (simp add: name_finalize)
  have sub: "subseq (map name (first_seen seen rs)) (map name rs)"
    using subseq_first_seen by (rule subseq_map)
  have first: "\<exists>r. List.find (\<lambda>x. name x = name out) rs = Some r \<and> out = finalize model_type today r"
    if "out \<in> set (map (finalize model_type today) (first_seen seen rs))" for out
  proof -
    from that obtain r where r: "r \<in> set (first_seen seen rs)" "out = finalize model_type today r"
      by auto
    then show ?thesis using find_first_seen [OF r(1)] by (auto simp: name_finalize)
  qed
  show ?thesis
    using sub first names_first_seen [of seen rs]
    by (simp add: parse_all_operators_def merge_results_eq process_records_eq n distinct_first_seen
        image_image name_finalize)
qed

theorem merge_concatenates_and_page_loop_dedups_witness:
  "parse_all_operators two_targets = [frihet ''Telia'', frihet ''Telenor'']
   \<and> map name (fst (process_records timing_out ''mobile_service_provider'' ''2025-01-01''
                      page_records {''Ice Mini''} []))
       = [''Telia Frihet'', ''Telia Smart'', ''telia frihet'', '' Telia Frihet'']
   \<and> snd (process_records timing_out ''mobile_service_provider'' ''2025-01-01'' page_records {''Ice Mini''} [])
       = {''Ice Mini'', ''Telia Frihet'', ''Telia Smart'', ''telia frihet'', '' Telia Frihet''}"
proof -
  have c: "concat (map plans_of two_targets) = [frihet ''Telia'', frihet ''Telenor'']"
    by (simp add: two_targets_def)
  note t = merge_concatenates_and_page_loop_dedups
            [of two_targets timing_out "''mobile_service_provider''" "''2025-01-01''"
                page_records "{''Ice Mini''}"]
  have p: "parse_all_operators two_targets = [frihet ''Telia'', frihet ''Telenor'']"
    using t [THEN conjunct1] c by (simp only:)
  have s: "snd (process_records timing_out ''mobile_service_provider'' ''2025-01-01'' page_records {''Ice Mini''} [])
           = {''Ice Mini''} \<union> set [''Telia Frihet'', ''Telia Smart'', ''telia frihet'', '' Telia Frihet'']"
    using t [THEN conjunct2, THEN conjunct2, THEN conjunct2, THEN conjunct2, THEN conjunct2]
    by (simp only: process_page_records)
  have u: "{''Ice Mini''} \<union> set [''Telia Frihet'', ''Telia Smart'', ''telia frihet'', '' Telia Frihet'']
           = {''Ice Mini'', ''Telia Frihet'', ''Telia Smart'', ''telia frihet'', '' Telia Frihet''}"
    by (simp only: set_simps Un_insert_left Un_empty_left)
  show ?thesis
    using p s process_page_records unfolding u by (simp only: simp_thms)
qed

text \<open>
  C1 as stated fails: two targets that both produce an item named Telia Frihet leave
  two items of that name in the merged list.
\<close>

theorem merge_keeps_duplicates_counterexample:
  "map plan_name (parse_all_operators two_targets) = [''Telia Frihet'', ''Telia Frihet'']
   \<and> map operator (parse_all_operators two_targets) = [''Telia'', ''Telenor'']
   \<and> \<not> distinct (map plan_name (parse_all_operators two_targets))"
  by (simp add: parse_all_operators_def two_targets_def frihet_def)

text \<open>
  C10. The duplicate test is membership of the name, as extracted, in the set of seen
  names: two records of a page whose names differ in any character, both names being
  non-empty and not seen before, both leave a record of their own name in the output,
  and neither name counts as a duplicate of the other. Nothing trims or folds a name.
\<close>

theorem dedup_exact_names:
  assumes "r1 \<in> set rs" and "r2 \<in> set rs" and "name r1 \<noteq> name r2"
    and "name r1 \<noteq> []" and "name r2 \<noteq> []" and "name r1 \<notin> seen" and "name r2 \<notin> seen"
  shows "(\<exists>o1 \<in> set (fst (process_records crawl model_type today rs seen [])).
          \<exists>o2 \<in> set (fst (process_records crawl model_type today rs seen [])).
            name o1 = name r1 \<and> name o2 = name r2 \<and> o1 \<noteq> o2)
         \<and> \<not> is_duplicated (name r1) (insert (name r2) seen)
         \<and> \<not> is_duplicated (name r2) (insert (name r1) seen)"
proof -
  let ?out = "fst (process_records crawl model_type today rs seen [])"
  have names: "name ` set ?out = {n \<in> name ` set rs. n \<noteq> [] \<and> n \<notin> seen}"
    using names_first_seen [of seen rs]
    by (simp add: process_records_eq image_image name_finalize)
  have "name r1 \<in> name ` set ?out" "name r2 \<in> name ` set ?out"
    using assms unfolding names by auto
  then obtain o1 o2 where o: "o1 \<in> set ?out" "name o1 = name r1" "o2 \<in> set ?out" "name o2 = name r2"
    by (auto elim!: imageE)
  have ne: "o1 \<noteq> o2" using o(2,4) assms(3) by auto
  have "\<exists>o1 \<in> set ?out. \<exists>o2 \<in> set ?out. name o1 = name r1 \<and> name o2 = name r2 \<and> o1 \<noteq> o2"
    using o ne by blast
  moreover have "\<not> is_duplicated (name r1) (insert (name r2) seen)"
    using assms(3,6) by (simp add: is_duplicated_def)
  moreover have "\<not> is_duplicated (name r2) (insert (name r1) seen)"
    using assms(3,7) by (simp add: is_duplicated_def)
  ultimately show ?thesis by (simp only: simp_thms)
qed

theorem dedup_exact_names_witness:
  "named ''Telia Frihet'' 299 \<in> set page_records
   \<and> named ''telia frihet'' 249 \<in> set page_records
   \<and> ''Telia Frihet'' \<noteq> ''telia frihet''
   \<and> ''Telia Frihet'' \<in> set (map name (fst (process_records timing_out ''mobile_service_provider''
                                                  ''2025-01-01'' page_records {''Ice Mini''} [])))
   \<and> ''telia frihet'' \<in> set (map name (fst (process_records timing_out ''mobile_service_provider''
                                                  ''2025-01-01'' page_records {''Ice Mini''} [])))
   \<and> '' Telia Frihet'' \<in> set (map name (fst (process_records timing_out ''mobile_service_provider''
                                                  ''2025-01-01'' page_records {''Ice Mini''} [])))
   \<and> \<not> is_duplicated ''Telia Frihet'' (insert ''telia frihet'' {''Ice Mini''})"
proof -
  have m: "named ''Telia Frihet'' 299 \<in> set page_records" "named ''telia frihet'' 249 \<in> set page_records"
    by (simp_all add: page_records_def)
  have d: "name (named ''Telia Frihet'' 299) \<noteq> name (named ''telia frihet'' 249)"
          "name (named ''Telia Frihet'' 299) \<noteq> []" "name (named ''telia frihet'' 249) \<noteq> []"
          "name (named ''Telia Frihet'' 299) \<notin> {''Ice Mini''}"
          "name (named ''telia frihet'' 249) \<notin> {''Ice Mini''}"
    by (simp_all add: named_def)
  have n: "name (named ''Telia Frihet'' 299) = ''Telia Frihet''"
          "name (named ''telia frihet'' 249) = ''telia frihet''"
    by (simp_all add: named_def)
  have dup: "\<not> is_duplicated ''Telia Frihet'' (insert ''telia frihet'' {''Ice Mini''})"
    using dedup_exact_names [OF m d, of timing_out "''mobile_service_provider''" "''2025-01-01''"]
    unfolding n by (rule conjunct2 [THEN conjunct1])
  have mem: "''Telia Frihet'' \<in> set [''Telia Frihet'', ''Telia Smart'', ''telia frihet'', '' Telia Frihet'']"
            "''telia frihet'' \<in> set [''Telia Frihet'', ''Telia Smart'', ''telia frihet'', '' Telia Frihet'']"
            "'' Telia Frihet'' \<in> set [''Telia Frihet'', ''Telia Smart'', ''telia frihet'', '' Telia Frihet'']"
    by simp_all
  have ne: "''Telia Frihet'' \<noteq> ''telia frihet''" by simp
  show ?thesis
    using m dup mem ne unfolding process_page_records by (simp only: simp_thms)
qed

section \<open>Enrichment client: \<^verbatim>\<open>extract_trustpilot_data\<close> (src/utils.py)\<close>

text \<open>
  \<^verbatim>\<open>
  async def extract_trustpilot_data(provider_name, context):
      if not provider_name:
          return {"trustpilot_score": None, "trustpilot_reviews": None, "trustpilot_url": None}
      page = None
      try:
          page = await context.new_page()
          search_query = provider_name.replace(' ', '%20')
          search_url = f"https://no.trustpilot.com/search?query={search_query}"
          await page.goto(search_url, wait_until="domcontentloaded")
          await page.wait_for_timeout(random.randint(1000, 3000))
          content = await page.content()
          soup = BeautifulSoup(content, 'html.parser')
          card = (soup.select_one('.styles_businessUnitCard__container__2M5Mv') or
                  soup.select_one('.business-unit-card') or
                  soup.select_one('.card'))
          if not card:
              return {... all None ...}
          rating_element = card.select_one('.styles_rating__size-m__3HwQJ, .star-rating')
          score = float(rating_element.text.replace(',', '.')) if rating_element else None
          reviews_element = card.select_one('.styles_text__2FFSI, .review-count')
          reviews_text = reviews_element.text if reviews_element else ""
          reviews_match = re.search(r'(\d[\d\s]*)', reviews_text.replace(' ', ''))
          reviews = int(reviews_match.group(1)) if reviews_match else None
          link_element = card.select_one('a[href^="/review/"], a.business-unit-card')
          url = "https://no.trustpilot.com" + link_element['href'] if link_element else None
          return {"trustpilot_score": score, "trustpilot_reviews": reviews, "trustpilot_url": url}
      except Exception as e:
          print(...)
          return {... all None ...}
      finally:
          if page:
              await page.close()
  \<close>
  The browser, the parser and the conversions \<^verbatim>\<open>float\<close> and \<^verbatim>\<open>int\<close> are the environment.
  A card is what the function reads of it: the text of its rating element and of its
  review-count element, when there is one, and its link, whose \<^verbatim>\<open>href\<close> may be missing
  (the second alternative of the link selector asks for none), which raises \<^verbatim>\<open>KeyError\<close>.
\<close>

record tp_card =
  rating_text :: "string option"
  reviews_text :: "string option"
  link_href :: "string option option"

record tp_page =
  goto :: "string \<Rightarrow> py_exn + unit"
  wait_for_timeout :: "py_exn + unit"
  content :: "py_exn + string"
  close :: "py_exn + unit"

record tp_env =
  new_page :: "py_exn + tp_page"
  select_one_card :: "string \<Rightarrow> string \<Rightarrow> tp_card option"
  py_float :: "string \<Rightarrow> py_exn + rat"
  py_int :: "string \<Rightarrow> py_exn + int"



definition is_digit :: "char \<Rightarrow> bool" where
  "is_digit c = (48 \<le> (of_char c :: nat) \<and> (of_char c :: nat) \<le> 57)"







definition closes :: "tp_env \<Rightarrow> bool" where
  "closes env = (case new_page env of Inl e \<Rightarrow> True | Inr page \<Rightarrow> \<not> isl (close page))"














section \<open>Text Normalizer (unified_parser.py)\<close>

subsection \<open>The patterns of \<^verbatim>\<open>re.search\<close>\<close>

text \<open>
  The regular expressions of the normalizer are built from character classes, greedy
  repetitions of a class, sequence, greedy option, alternation and the word boundary.
  All are searched with \<^verbatim>\<open>re.IGNORECASE\<close>: a literal letter matches both of its cases
  (below 256 no other character folds to an ASCII letter). \<^verbatim>\<open>\d\<close> is 0 to 9 below 256,
  and \<^verbatim>\<open>\w\<close>, which decides \<^verbatim>\<open>\b\<close>, holds the alphanumeric characters and the underscore.
\<close>

datatype cls = Digit | Space | Lit char | OneOf string

fun cls_match :: "cls \<Rightarrow> char \<Rightarrow> bool" where
  "cls_match Digit c = is_digit c"
| "cls_match Space c = py_isspace c"
| "cls_match (Lit x) c = (py_lower_char c = py_lower_char x)"
| "cls_match (OneOf s) c = (c \<in> set s)"

definition py_isword :: "char \<Rightarrow> bool" where
  "py_isword c =
     (let n = of_char c :: nat
      in (48 \<le> n \<and> n \<le> 57) \<or> (65 \<le> n \<and> n \<le> 90) \<or> n = 95 \<or> (97 \<le> n \<and> n \<le> 122)
         \<or> n \<in> {170, 178, 179, 181, 185, 186, 188, 189, 190}
         \<or> (192 \<le> n \<and> n \<le> 214) \<or> (216 \<le> n \<and> n \<le> 246) \<or> (248 \<le> n \<and> n \<le> 255))"

datatype rx = Eps | Ch cls | Star cls | Plus cls | Seq rx rx | Opt rx | Alt rx rx | WordB

text \<open>
  A position in the text is the character before it, if any, and the rest of the text.
  The matcher lists the positions at which a match of the expression from a position
  can end, in the order in which backtracking tries them: a greedy repetition gives
  the longest run first, an option tries its body before the empty match, a sequence
  tries every end of its first part in turn. The first entry is the match that
  \<^verbatim>\<open>re\<close> reports.
\<close>

type_synonym pos = "char option \<times> string"

fun greedy :: "cls \<Rightarrow> char option \<Rightarrow> string \<Rightarrow> pos list" where
  "greedy k p [] = [(p, [])]"
| "greedy k p (c # cs) = (if cls_match k c then greedy k (Some c) cs @ [(p, c # cs)] else [(p, c # cs)])"

fun rxm :: "rx \<Rightarrow> char option \<Rightarrow> string \<Rightarrow> pos list" where
  "rxm Eps p cs = [(p, cs)]"
| "rxm (Ch k) p cs = (case cs of [] \<Rightarrow> [] | c # cs' \<Rightarrow> if cls_match k c then [(Some c, cs')] else [])"
| "rxm (Star k) p cs = greedy k p cs"
| "rxm (Plus k) p cs = (case cs of [] \<Rightarrow> [] | c # cs' \<Rightarrow> if cls_match k c then greedy k (Some c) cs' else [])"
| "rxm (Seq a b) p cs = concat (map (\<lambda>(p', cs'). rxm b p' cs') (rxm a p cs))"
| "rxm (Opt a) p cs = rxm a p cs @ [(p, cs)]"
| "rxm (Alt a b) p cs = rxm a p cs @ rxm b p cs"
| "rxm WordB p cs =
     (if (case p of None \<Rightarrow> False | Some c \<Rightarrow> py_isword c) \<noteq> (case cs of [] \<Rightarrow> False | c # cs' \<Rightarrow> py_isword c)
      then [(p, cs)] else [])"

text \<open>
  A pattern with one group is the part before the group, the group and the part after
  it. A match is \<^verbatim>\<open>group(0)\<close>, the text matched in all, and \<^verbatim>\<open>group(1)\<close>.
\<close>

record pattern =
  pre :: rx
  grp :: rx
  post :: rx

definition match_at :: "pattern \<Rightarrow> char option \<Rightarrow> string \<Rightarrow> (string \<times> string) option" where
  "match_at pat p cs =
     (case concat (map (\<lambda>(p1, cs1).
                     concat (map (\<lambda>(p2, cs2).
                               map (\<lambda>(p3, cs3).
                                      (take (length cs - length cs3) cs,
                                       take (length cs1 - length cs2) cs1))
                                 (rxm (post pat) p2 cs2))
                           (rxm (grp pat) p1 cs1)))
                   (rxm (pre pat) p cs)) of
        [] \<Rightarrow> None
      | m # ms \<Rightarrow> Some m)"

text \<open>\<^verbatim>\<open>re.search\<close> tries the start positions from left to right, the end of the text included.\<close>

fun search_from :: "pattern \<Rightarrow> char option \<Rightarrow> string \<Rightarrow> (string \<times> string) option" where
  "search_from pat p [] = match_at pat p []"
| "search_from pat p (c # cs) =
     (case match_at pat p (c # cs) of
        Some m \<Rightarrow> Some m
      | None \<Rightarrow> search_from pat (Some c) cs)"

definition re_search :: "pattern \<Rightarrow> string \<Rightarrow> (string \<times> string) option" where
  "re_search pat t = search_from pat None t"

text \<open>A literal word, and the number \<^verbatim>\<open>\d+(?:[,\.]\d+)?\<close>.\<close>

fun lits :: "string \<Rightarrow> rx" where
  "lits [] = Eps"
| "lits (c # cs) = Seq (Ch (Lit c)) (lits cs)"

definition number :: rx where
  "number = Seq (Plus Digit) (Opt (Seq (Ch (OneOf '',.'')) (Plus Digit)))"

subsection \<open>\<^verbatim>\<open>_extract_price\<close>\<close>


text \<open>The loop over the patterns: the first pattern of the list that matches anywhere.\<close>

fun first_match :: "pattern list \<Rightarrow> string \<Rightarrow> (string \<times> string) option" where
  "first_match [] t = None"
| "first_match (pat # pats) t =
     (case re_search pat t of
        Some m \<Rightarrow> Some m
      | None \<Rightarrow> first_match pats t)"

text \<open>\<^verbatim>\<open>s.replace(',', '.')\<close>\<close>

definition comma_to_dot :: "string \<Rightarrow> string" where
  "comma_to_dot s = map (\<lambda>c. if c = CHR '','' then CHR ''.'' else c) s"


subsection \<open>\<^verbatim>\<open>_extract_data_amount\<close>\<close>

text \<open>
  \<^verbatim>\<open>
  def _extract_data_amount(self, text):
      if not text:
          return ""
      text_lower = text.lower()
      unlimited_keywords = ['ubegrenset', 'unlimited', 'fri data', 'uten grense']
      if any(keyword in text_lower for keyword in unlimited_keywords):
          return "Unlimited"
      data_patterns = [
          r'(\d+(?:[,\.]\d+)?)\s*GB\b',
          r'(\d+(?:[,\.]\d+)?)\s*TB\b',
          r'(\d+(?:[,\.]\d+)?)\s*MB\b',
          r'(\d+)\s*giga\b'
      ]
      for pattern in data_patterns:
          match = re.search(pattern, text, re.IGNORECASE)
          if match:
              amount = match.group(1).replace(',', '.')
              unit = 'GB' if 'giga' in pattern else match.group(0)[-2:]
              return f"{amount} {unit}"
      return self._clean_text(text)
  \<close>
  Each pattern goes with the answer to \<^verbatim>\<open>'giga' in pattern\<close>, true of the last one only.
\<close>

definition unlimited_keywords :: "string list" where
  "unlimited_keywords = [''ubegrenset'', ''unlimited'', ''fri data'', ''uten grense'']"

definition data_patterns :: "(pattern \<times> bool) list" where
  "data_patterns =
     [(\<lparr>pre = Eps, grp = number, post = Seq (Star Space) (Seq (lits ''GB'') WordB)\<rparr>, False),
      (\<lparr>pre = Eps, grp = number, post = Seq (Star Space) (Seq (lits ''TB'') WordB)\<rparr>, False),
      (\<lparr>pre = Eps, grp = number, post = Seq (Star Space) (Seq (lits ''MB'') WordB)\<rparr>, False),
      (\<lparr>pre = Eps, grp = Plus Digit, post = Seq (Star Space) (Seq (lits ''giga'') WordB)\<rparr>, True)]"

text \<open>\<^verbatim>\<open>s[-2:]\<close>\<close>

definition last_two :: "string \<Rightarrow> string" where
  "last_two s = drop (length s - 2) s"

fun first_data_match :: "(pattern \<times> bool) list \<Rightarrow> string \<Rightarrow> string option" where
  "first_data_match [] t = None"
| "first_data_match ((pat, giga) # pats) t =
     (case re_search pat t of
        Some (g0, g1) \<Rightarrow> Some (comma_to_dot g1 @ '' '' @ (if giga then ''GB'' else last_two g0))
      | None \<Rightarrow> first_data_match pats t)"

definition extract_data_amount :: "string \<Rightarrow> string" where
  "extract_data_amount t =
     (if t = [] then []
      else if list_ex (\<lambda>keyword. sublist keyword (py_lower t)) unlimited_keywords then ''Unlimited''
      else case first_data_match data_patterns t of
             Some r \<Rightarrow> r
           | None \<Rightarrow> clean_text t)"

subsection \<open>The variants of main.py\<close>

text \<open>
  main.py (and several_site_analyzer.py, word for word) has older versions of both
  functions: the numbers take a comma only, no word boundary is asked for, a number
  after \<^verbatim>\<open>NOK\<close> is a price, and nothing replaces the comma.
  \<^verbatim>\<open>
  price_patterns = [r'(\d+(?:,\d+)?)\s*kr', r'(\d+(?:,\d+)?)\s*NOK', r'kr\s*(\d+(?:,\d+)?)',
                    r'NOK\s*(\d+(?:,\d+)?)', r'(\d+(?:,\d+)?)\s*,-']
  for pattern in price_patterns:
      match = re.search(pattern, text, re.IGNORECASE)
      if match:
          return f"{match.group(1)} kr"
  return self._clean_text(text)
  \<close>
  \<^verbatim>\<open>
  data_patterns = [r'(\d+(?:,\d+)?)\s*GB', r'(\d+(?:,\d+)?)\s*TB', r'(\d+(?:,\d+)?)\s*MB',
                   r'ubegrenset|unlimited|fri\s*data', r'(\d+)\s*giga']
  text_lower = text.lower()
  if any(word in text_lower for word in ['ubegrenset', 'unlimited', 'fri data', 'uten grense']):
      return "Unlimited"
  for pattern in data_patterns:
      match = re.search(pattern, text, re.IGNORECASE)
      if match:
          if pattern.endswith('giga'):
              return f"{match.group(1)} GB"
          return match.group(0)
  return self._clean_text(text)
  \<close>
\<close>

definition number_main :: rx where
  "number_main = Seq (Plus Digit) (Opt (Seq (Ch (Lit CHR '','')) (Plus Digit)))"



definition data_patterns_main :: "(pattern \<times> bool) list" where
  "data_patterns_main =
     [(\<lparr>pre = Eps, grp = number_main, post = Seq (Star Space) (lits ''GB'')\<rparr>, False),
      (\<lparr>pre = Eps, grp = number_main, post = Seq (Star Space) (lits ''TB'')\<rparr>, False),
      (\<lparr>pre = Eps, grp = number_main, post = Seq (Star Space) (lits ''MB'')\<rparr>, False),
      (\<lparr>pre = Eps, grp = Eps,
        post = Alt (lits ''ubegrenset'')
                 (Alt (lits ''unlimited'') (Seq (lits ''fri'') (Seq (Star Space) (lits ''data''))))\<rparr>, False),
      (\<lparr>pre = Eps, grp = Plus Digit, post = Seq (Star Space) (lits ''giga'')\<rparr>, True)]"

fun first_data_match_main :: "(pattern \<times> bool) list \<Rightarrow> string \<Rightarrow> string option" where
  "first_data_match_main [] t = None"
| "first_data_match_main ((pat, giga) # pats) t =
     (case re_search pat t of
        Some (g0, g1) \<Rightarrow> Some (if giga then g1 @ '' GB'' else g0)
      | None \<Rightarrow> first_data_match_main pats t)"

definition extract_data_amount_main :: "string \<Rightarrow> string" where
  "extract_data_amount_main t =
     (if t = [] then []
      else if list_ex (\<lambda>word. sublist word (py_lower t)) unlimited_keywords then ''Unlimited''
      else case first_data_match_main data_patterns_main t of
             Some r \<Rightarrow> r
           | None \<Rightarrow> clean_text t)"

subsection \<open>Unlimited data\<close>

lemma unlimited_keyword_found:
  assumes "kw \<in> set unlimited_keywords" and "py_lower w = kw" and "sublist w t"
  shows "t \<noteq> [] \<and> list_ex (\<lambda>keyword. sublist keyword (py_lower t)) unlimited_keywords"
proof -
  have "kw \<noteq> []" using assms(1) by (auto simp: unlimited_keywords_def)
  then have "w \<noteq> []" using assms(2) by (auto simp: py_lower_def)
  then have "t \<noteq> []" using assms(3) by auto
  moreover have "sublist kw (py_lower t)"
    using sublist_py_lower [OF assms(3)] assms(2) by simp
  ultimately show ?thesis using assms(1) by (auto simp: list_ex_iff)
qed

text \<open>
  C3. A text that holds an unlimited keyword in any letter case (a part \<open>w\<close> of the
  text whose lower-case form is the keyword) is normalised to the literal
  \<^verbatim>\<open>Unlimited\<close>, whatever else the text holds, by the function of unified_parser.py and
  by the one of main.py alike.
\<close>

theorem extract_data_amount_unlimited:
  assumes "kw \<in> set unlimited_keywords" and "py_lower w = kw" and "sublist w t"
  shows "extract_data_amount t = ''Unlimited'' \<and> extract_data_amount_main t = ''Unlimited''"
  using unlimited_keyword_found [OF assms]
  by (simp add: extract_data_amount_def extract_data_amount_main_def)

theorem extract_data_amount_unlimited_witness:
  "''ubegrenset'' \<in> set unlimited_keywords
   \<and> py_lower ''UBEGRENSET'' = ''ubegrenset''
   \<and> sublist ''UBEGRENSET'' ''100 GB eller UBEGRENSET data, 5 TB''
   \<and> extract_data_amount ''100 GB eller UBEGRENSET data, 5 TB'' = ''Unlimited''
   \<and> extract_data_amount_main ''100 GB eller UBEGRENSET data, 5 TB'' = ''Unlimited''
   \<and> extract_data_amount ''100 GB, 5 TB'' = ''100 GB''"
proof -
  have a: "''ubegrenset'' \<in> set unlimited_keywords" by (simp add: unlimited_keywords_def)
  have b: "py_lower ''UBEGRENSET'' = ''ubegrenset''" by code_simp
  have c: "sublist ''UBEGRENSET'' ''100 GB eller UBEGRENSET data, 5 TB''" by code_simp
  have d: "extract_data_amount ''100 GB, 5 TB'' = ''100 GB''" by code_simp
  show ?thesis
    using extract_data_amount_unlimited [OF a b c] a b c d by (simp only: simp_thms)
qed

subsection \<open>What a match consumes\<close>









lemma first_match_None_iff:
  "first_match pats t = None \<longleftrightarrow> list_all (\<lambda>pat. re_search pat t = None) pats"
  by (induction pats) (auto split: option.splits)


subsection \<open>The cleaned text\<close>




subsection \<open>Which match is reported\<close>










end
